theory Spec2Isabelle
  imports Complex_Main
begin

section \<open>Values that cross the HTTP boundary\<close>

text \<open>
  The numbers \<^verbatim>\<open>JSON.parse\<close> can give: a finite double (every one is a rational; \<open>Finite 0\<close>
  is \<^verbatim>\<open>+0\<close>), negative zero (from \<^verbatim>\<open>-0\<close>), and the two infinities (from a literal
  beyond the range of a double, such as \<^verbatim>\<open>1e400\<close>).
\<close>

datatype jsnumber =
    Finite rat
  | NegativeZero
  | PositiveInfinity
  | NegativeInfinity

text \<open>
  The request body reaches the handlers after \<^verbatim>\<open>express.json()\<close> has parsed it, so
  \<^verbatim>\<open>req.body.cart\<close> and \<^verbatim>\<open>req.body.pref\<close> are JSON values, or \<^verbatim>\<open>undefined\<close> when the key
  is absent. An object is the list of its own properties.
\<close>

datatype jsvalue =
    JUndefined
  | JNull
  | JBool bool
  | JNum jsnumber
  | JStr string
  | JArr "jsvalue list"
  | JObj "(string \<times> jsvalue) list"

text \<open>
  What a \<^verbatim>\<open>throw\<close> (or a rejected promise) carries. \<^verbatim>\<open>ApiError\<close> stands for every
  value for which \<^verbatim>\<open>err instanceof ApiError\<close> holds; the string is \<^verbatim>\<open>err.message\<close>.
  \<^verbatim>\<open>Error\<close> stands for every other thrown value, a \<^verbatim>\<open>RangeError\<close> included.
\<close>

datatype js_error =
    ApiError string
  | TypeError string
  | SyntaxError string
  | Error string

text \<open>
  Reading \<^verbatim>\<open>req.body.k\<close> for the two keys the handler reads (\<^verbatim>\<open>cart\<close>, \<^verbatim>\<open>pref\<close>):
  on \<^verbatim>\<open>undefined\<close> and \<^verbatim>\<open>null\<close> the access throws a TypeError, on an object it gives
  the own property or \<^verbatim>\<open>undefined\<close>, and on every other value (arrays, strings,
  numbers, booleans have no such property) it gives \<^verbatim>\<open>undefined\<close>.
\<close>

fun get_property :: "jsvalue \<Rightarrow> string \<Rightarrow> js_error + jsvalue" where
  "get_property JUndefined k = Inl (TypeError ''Cannot read properties of undefined'')"
| "get_property JNull k = Inl (TypeError ''Cannot read properties of null'')"
| "get_property (JObj kvs) k = Inr (case map_of kvs k of None \<Rightarrow> JUndefined | Some v \<Rightarrow> v)"
| "get_property v k = Inr JUndefined"

section \<open>The order request\<close>

record Money =
  currencyCode :: string
  "value" :: string

record AmountBreakdown =
  itemTotal :: Money

record AmountWithBreakdown = Money +
  breakdown :: AmountBreakdown

record Item =
  name :: string
  unitAmount :: Money
  quantity :: string
  description :: string
  sku :: string

record PhoneNumber =
  countryCode :: string
  nationalNumber :: string

record ShippingName =
  full_name :: string

record ShippingOption =
  id' :: string
  type :: string
  label :: string
  selected :: bool
  amount :: Money

record ShippingDetails =
  phoneNumber :: PhoneNumber
  name :: ShippingName
  options :: "ShippingOption list"

text \<open>
  \<^verbatim>\<open>shipping\<close> is \<open>None\<close> when the purchase unit has no \<^verbatim>\<open>shipping\<close> key: the spread
  \<^verbatim>\<open>...(includeShipping && { shipping: ... })\<close> adds the key only when the flag is true.
\<close>

record PurchaseUnit =
  amount :: AmountWithBreakdown
  items :: "Item list"
  shipping :: "ShippingDetails option"

text \<open>
  Modelled from the spec: the enumeration \<^verbatim>\<open>PaypalExperienceUserAction\<close> belongs to the
  imported SDK; the spec calls the member the builder uses the fixed "pay now" user
  action.
\<close>

datatype PaypalExperienceUserAction = Continue | PayNow

record ExperienceContext =
  userAction :: PaypalExperienceUserAction
  contactPreference :: jsvalue

record PaypalWallet =
  experienceContext :: ExperienceContext

record PaymentSource =
  paypal :: PaypalWallet

record OrderRequest =
  intent :: string
  purchaseUnits :: "PurchaseUnit list"
  paymentSource :: PaymentSource

record Collect =
  body :: OrderRequest
  "prefer" :: string

section \<open>The external collaborators\<close>

text \<open>
  The SDK's controller and \<^verbatim>\<open>JSON.parse\<close> are not part of the program: they are
  parameters. A call either throws (\<open>Inl\<close>) or returns (\<open>Inr\<close>).
\<close>

record ApiResponse =
  body :: string
  statusCode :: int

record CaptureRequest =
  id' :: string
  "prefer" :: string

record Env =
  ordersController_createOrder :: "Collect \<Rightarrow> js_error + ApiResponse"
  ordersController_captureOrder :: "CaptureRequest \<Rightarrow> js_error + ApiResponse"
  JSON_parse :: "string \<Rightarrow> js_error + jsvalue"

section \<open>createOrder\<close>

text \<open>
  Lines 68 to 176 of server.js: the object \<^verbatim>\<open>collect\<close>. The parameter
  \<^verbatim>\<open>contactPreference\<close> is written \<open>pref\<close>, since the field of the experience context
  has its name.
\<close>

definition includeShipping :: "jsvalue \<Rightarrow> bool" where
  "includeShipping pref \<longleftrightarrow> pref \<noteq> JStr ''NO_CONTACT_INFO''"

definition collect :: "jsvalue \<Rightarrow> jsvalue \<Rightarrow> Collect" where
  "collect cart pref =
    \<lparr> Collect.body =
        \<lparr> intent = ''CAPTURE'',
          purchaseUnits =
            [ \<lparr> PurchaseUnit.amount =
                  \<lparr> currencyCode = ''GBP'',
                    value = ''100.00'',
                    breakdown =
                      \<lparr> itemTotal = \<lparr> currencyCode = ''GBP'', value = ''100.00'' \<rparr> \<rparr> \<rparr>,
                items =
                  [ \<lparr> Item.name = ''T-Shirt'',
                      unitAmount = \<lparr> currencyCode = ''GBP'', value = ''100.00'' \<rparr>,
                      quantity = ''1'',
                      description = ''Super Fresh Shirt'',
                      sku = ''sku01'' \<rparr> ],
                shipping =
                  (if includeShipping pref then
                     Some
                       \<lparr> phoneNumber =
                           \<lparr> countryCode = ''44'', nationalNumber = ''4081111111'' \<rparr>,
                         ShippingDetails.name = \<lparr> full_name = ''Hans Muller'' \<rparr>,
                         options =
                           [ \<lparr> ShippingOption.id' = ''SHIP1'',
                               type = ''SHIPPING'',
                               label = ''Free Shipping'',
                               selected = False,
                               ShippingOption.amount =
                                 \<lparr> currencyCode = ''GBP'', value = ''0.00'' \<rparr> \<rparr>,
                             \<lparr> ShippingOption.id' = ''SHIP2'',
                               type = ''SHIPPING'',
                               label = ''2-Day Shipping'',
                               selected = False,
                               ShippingOption.amount =
                                 \<lparr> currencyCode = ''GBP'', value = ''4.00'' \<rparr> \<rparr>,
                             \<lparr> ShippingOption.id' = ''PICKUP0'',
                               type = ''PICKUP'',
                               label = ''Collect from Glasgow Store'',
                               selected = True,
                               ShippingOption.amount =
                                 \<lparr> currencyCode = ''GBP'', value = ''0.00'' \<rparr> \<rparr>,
                             \<lparr> ShippingOption.id' = ''PICKUP1'',
                               type = ''PICKUP'',
                               label = ''Collect from London Store'',
                               selected = False,
                               ShippingOption.amount =
                                 \<lparr> currencyCode = ''GBP'', value = ''0.00'' \<rparr> \<rparr> ] \<rparr>
                   else None) \<rparr> ],
          paymentSource =
            \<lparr> paypal =
                \<lparr> experienceContext =
                    \<lparr> userAction = PayNow,
                      contactPreference = pref \<rparr> \<rparr> \<rparr> \<rparr>,
      Collect.prefer = ''return=minimal'' \<rparr>"

text \<open>
  What \<^verbatim>\<open>createOrder\<close> resolves to. The first component of its result is the list of
  requests it has submitted to the processor; the second is the thrown error or the
  returned object.
\<close>

record CreateOrderResult =
  jsonResponse :: jsvalue
  httpStatusCode :: int

definition createOrder ::
  "Env \<Rightarrow> jsvalue \<Rightarrow> jsvalue \<Rightarrow> Collect list \<times> (js_error + CreateOrderResult)" where
  "createOrder env cart pref =
    (let c = collect cart pref in
      ([c],
       case ordersController_createOrder env c of
         Inl err \<Rightarrow> Inl err
       | Inr httpResponse \<Rightarrow>
           (case JSON_parse env (ApiResponse.body httpResponse) of
              Inl err \<Rightarrow> Inl err
            | Inr parsed \<Rightarrow>
                Inr \<lparr> jsonResponse = parsed,
                      httpStatusCode = statusCode httpResponse \<rparr>)))"

section \<open>The routes\<close>

text \<open>
  What the client receives: the status code, and the JSON value of the body, \<open>None\<close> when
  the response has no body.
\<close>

record HttpResponse =
  status :: int
  json :: "jsvalue option"

text \<open>
  \<^verbatim>\<open>res.json(v)\<close> sends the text \<^verbatim>\<open>JSON.stringify(v)\<close>. \<open>written v\<close> is the value that
  text denotes, \<open>None\<close> when \<^verbatim>\<open>JSON.stringify\<close> gives \<^verbatim>\<open>undefined\<close> and nothing is sent:
  an infinity is written \<^verbatim>\<open>null\<close>, negative zero is written \<^verbatim>\<open>0\<close>, \<^verbatim>\<open>undefined\<close> is
  written \<^verbatim>\<open>null\<close> inside an array and leaves its key out of an object.
\<close>

fun written :: "jsvalue \<Rightarrow> jsvalue option"
  and written_elements :: "jsvalue list \<Rightarrow> jsvalue list"
  and written_properties :: "(string \<times> jsvalue) list \<Rightarrow> (string \<times> jsvalue) list" where
  "written JUndefined = None"
| "written JNull = Some JNull"
| "written (JBool b) = Some (JBool b)"
| "written (JNum n) =
     Some (case n of
             Finite q \<Rightarrow> JNum (Finite q)
           | NegativeZero \<Rightarrow> JNum (Finite 0)
           | PositiveInfinity \<Rightarrow> JNull
           | NegativeInfinity \<Rightarrow> JNull)"
| "written (JStr s) = Some (JStr s)"
| "written (JArr vs) = Some (JArr (written_elements vs))"
| "written (JObj kvs) = Some (JObj (written_properties kvs))"
| "written_elements [] = []"
| "written_elements (v # vs) =
     (case written v of None \<Rightarrow> JNull | Some w \<Rightarrow> w) # written_elements vs"
| "written_properties [] = []"
| "written_properties ((k, v) # kvs) =
     (case written v of
        None \<Rightarrow> written_properties kvs
      | Some w \<Rightarrow> (k, w) # written_properties kvs)"

text \<open>
  A response with an informational status, 204, 205 or 304 is sent without a body:
  Express empties the body for 204, 205 and 304, and Node writes none for 1xx.
\<close>

definition has_body :: "int \<Rightarrow> bool" where
  "has_body s \<longleftrightarrow> (s < 100 \<or> 199 < s) \<and> s \<noteq> 204 \<and> s \<noteq> 205 \<and> s \<noteq> 304"

text \<open>
  \<^verbatim>\<open>res.status(s).json(v)\<close>, for an integer \<open>s\<close>: a status code outside 100..999 is
  refused with a \<^verbatim>\<open>RangeError\<close>, thrown before anything is sent; otherwise the response
  has the status \<open>s\<close> and, when that status carries a body, the body \<^verbatim>\<open>JSON.stringify(v)\<close>.
\<close>

definition res_status_json :: "int \<Rightarrow> jsvalue \<Rightarrow> js_error + HttpResponse" where
  "res_status_json s v =
    (if s < 100 \<or> 999 < s then Inl (Error ''Invalid status code'')
     else Inr \<lparr> status = s, json = (if has_body s then written v else None) \<rparr>)"

text \<open>
  \<^verbatim>\<open>POST /api/orders\<close>, from \<^verbatim>\<open>req.body\<close>. The \<^verbatim>\<open>try\<close> block holds the two reads of the
  body, the call of \<^verbatim>\<open>createOrder\<close> and \<^verbatim>\<open>res.status(httpStatusCode).json(jsonResponse)\<close>;
  \<open>failed\<close> is what the \<^verbatim>\<open>catch\<close> sends, \<^verbatim>\<open>res.status(500).json({ error: ... })\<close>.
\<close>

definition post_api_orders :: "Env \<Rightarrow> jsvalue \<Rightarrow> Collect list \<times> HttpResponse" where
  "post_api_orders env req_body =
    (let failed = \<lparr> status = 500,
                     json = Some (JObj [(''error'', JStr ''Failed to create order.'')]) \<rparr> in
      case get_property req_body ''cart'' of
        Inl err \<Rightarrow> ([], failed)
      | Inr cart \<Rightarrow>
          (case get_property req_body ''pref'' of
             Inl err \<Rightarrow> ([], failed)
           | Inr pref \<Rightarrow>
               (case createOrder env cart pref of
                  (sent, Inl err) \<Rightarrow> (sent, failed)
                | (sent, Inr r) \<Rightarrow>
                    (case res_status_json (httpStatusCode r) (jsonResponse r) of
                       Inl err \<Rightarrow> (sent, failed)
                     | Inr response \<Rightarrow> (sent, response)))))"

text \<open>
  \<^verbatim>\<open>POST /api/orders/:orderID/capture\<close>, from \<^verbatim>\<open>req.params.orderID\<close>. \<open>thrown err\<close> is what
  the \<^verbatim>\<open>catch\<close> sends for the error \<open>err\<close>.
\<close>

definition post_api_orders_capture ::
  "Env \<Rightarrow> string \<Rightarrow> CaptureRequest list \<times> HttpResponse" where
  "post_api_orders_capture env orderID =
    (let request = \<lparr> CaptureRequest.id' = orderID, CaptureRequest.prefer = ''return=minimal'' \<rparr>;
         thrown = (\<lambda>err. \<lparr> status = 500,
                            json = Some (JObj [(''error'',
                              JStr (case err of ApiError message \<Rightarrow> message
                                    | _ \<Rightarrow> ''Failed to capture order.''))]) \<rparr>)
     in
      ([request],
       case ordersController_captureOrder env request of
         Inl err \<Rightarrow> thrown err
       | Inr http \<Rightarrow>
           (case JSON_parse env (ApiResponse.body http) of
              Inl err \<Rightarrow> thrown err
            | Inr parsed \<Rightarrow>
                (case res_status_json (statusCode http) parsed of
                   Inl err \<Rightarrow> thrown err
                 | Inr response \<Rightarrow> response))))"

section \<open>Properties\<close>

subsection \<open>What createOrder and the create route do, by cases\<close>

lemma createOrder_sent: "fst (createOrder env cart pref) = [collect cart pref]"
  by (simp add: createOrder_def Let_def)

lemma createOrder_throws_iff:
  "snd (createOrder env cart pref) = Inl e \<longleftrightarrow>
     ordersController_createOrder env (collect cart pref) = Inl e
     \<or> (\<exists>r. ordersController_createOrder env (collect cart pref) = Inr r
            \<and> JSON_parse env (ApiResponse.body r) = Inl e)"
  by (auto simp: createOrder_def Let_def split: sum.splits)

lemma createOrder_returns_iff:
  "snd (createOrder env cart pref) = Inr res \<longleftrightarrow>
     (\<exists>r j. ordersController_createOrder env (collect cart pref) = Inr r
            \<and> JSON_parse env (ApiResponse.body r) = Inr j
            \<and> res = \<lparr> jsonResponse = j, httpStatusCode = statusCode r \<rparr>)"
  by (auto simp: createOrder_def Let_def split: sum.splits)

lemma post_api_orders_unfold:
  assumes "get_property req_body ''cart'' = Inr cart"
    and "get_property req_body ''pref'' = Inr pref"
  shows "post_api_orders env req_body =
    (fst (createOrder env cart pref),
     case snd (createOrder env cart pref) of
       Inl err \<Rightarrow>
         \<lparr> status = 500, json = Some (JObj [(''error'', JStr ''Failed to create order.'')]) \<rparr>
     | Inr r \<Rightarrow>
         (case res_status_json (httpStatusCode r) (jsonResponse r) of
            Inl err \<Rightarrow>
              \<lparr> status = 500,
                json = Some (JObj [(''error'', JStr ''Failed to create order.'')]) \<rparr>
          | Inr response \<Rightarrow> response))"
  using assms by (simp add: post_api_orders_def Let_def split: prod.splits sum.splits)

text \<open>The response of the \<^verbatim>\<open>catch\<close> blocks: status 500 is accepted and carries its body.\<close>

lemma res_status_json_500:
  "res_status_json 500 (JObj [(''error'', JStr message)]) =
     Inr \<lparr> status = 500, json = Some (JObj [(''error'', JStr message)]) \<rparr>"
  by (simp add: res_status_json_def has_body_def)

lemma res_status_json_out_of_range:
  "s < 100 \<or> 999 < s \<Longrightarrow> \<exists>err. res_status_json s v = Inl err"
  by (auto simp: res_status_json_def)

lemma res_status_json_in_range:
  "100 \<le> s \<Longrightarrow> s \<le> 999 \<Longrightarrow>
     res_status_json s v = Inr \<lparr> status = s, json = (if has_body s then written v else None) \<rparr>"
  by (simp add: res_status_json_def)

subsection \<open>The payload\<close>

text \<open>
  C1. For every contact preference other than the string \<^verbatim>\<open>"NO_CONTACT_INFO"\<close>, and
  every cart, the purchase unit of the built request has a shipping block; its options
  list has exactly four entries, the entry with id \<^verbatim>\<open>"PICKUP0"\<close> has
  \<^verbatim>\<open>selected = true\<close>, the three others have \<^verbatim>\<open>selected = false\<close>, so exactly one
  option is selected.
\<close>

theorem shipping_block_selects_pickup0:
  assumes "pref \<noteq> JStr ''NO_CONTACT_INFO''"
  shows "\<exists>pu sh. purchaseUnits (Collect.body (collect cart pref)) = [pu]
           \<and> shipping pu = Some sh
           \<and> length (options sh) = 4
           \<and> map (\<lambda>opt. (ShippingOption.id' opt, selected opt)) (options sh) =
               [(''SHIP1'', False), (''SHIP2'', False), (''PICKUP0'', True), (''PICKUP1'', False)]
           \<and> map ShippingOption.id' (filter selected (options sh)) = [''PICKUP0'']"
  using assms by (simp add: collect_def includeShipping_def)

text \<open>Scenario B of the specification: an empty cart and \<^verbatim>\<open>"RETAIN_CONTACT_INFO"\<close>.\<close>

theorem shipping_block_selects_pickup0_witness:
  "JStr ''RETAIN_CONTACT_INFO'' \<noteq> JStr ''NO_CONTACT_INFO''
   \<and> (\<exists>pu sh. purchaseUnits (Collect.body (collect (JArr []) (JStr ''RETAIN_CONTACT_INFO''))) = [pu]
           \<and> shipping pu = Some sh
           \<and> length (options sh) = 4
           \<and> map (\<lambda>opt. (ShippingOption.id' opt, selected opt)) (options sh) =
               [(''SHIP1'', False), (''SHIP2'', False), (''PICKUP0'', True), (''PICKUP1'', False)]
           \<and> map ShippingOption.id' (filter selected (options sh)) = [''PICKUP0''])"
proof -
  have ne: "JStr ''RETAIN_CONTACT_INFO'' \<noteq> JStr ''NO_CONTACT_INFO''" by simp
  show ?thesis
    using ne shipping_block_selects_pickup0 [OF ne, of "JArr []"] by blast
qed

text \<open>
  C2. For the contact preference \<^verbatim>\<open>"NO_CONTACT_INFO"\<close>, and every cart, the built request
  has one purchase unit and that unit has no \<^verbatim>\<open>shipping\<close> key.
\<close>

theorem no_contact_info_omits_shipping:
  "map shipping (purchaseUnits (Collect.body (collect cart (JStr ''NO_CONTACT_INFO'')))) = [None]"
  by (simp add: collect_def includeShipping_def)

text \<open>
  C3. For every cart and every contact preference, whether or not shipping is included,
  the experience context of the payment source has the user action "pay now" and a
  \<^verbatim>\<open>contactPreference\<close> equal to the value the caller supplied.
\<close>

theorem experience_context_forwards_pref:
  "userAction (experienceContext (paypal (paymentSource (Collect.body (collect cart pref))))) = PayNow
   \<and> contactPreference (experienceContext (paypal (paymentSource (Collect.body (collect cart pref))))) = pref"
  by (simp add: collect_def)

text \<open>
  C4. In every built request the value of the breakdown's item total equals the value of
  the purchase unit's amount, and the two carry the same currency code.
\<close>

theorem item_total_equals_amount:
  "\<exists>pu. purchaseUnits (Collect.body (collect cart pref)) = [pu]
     \<and> value (itemTotal (breakdown (PurchaseUnit.amount pu))) = value (PurchaseUnit.amount pu)
     \<and> currencyCode (itemTotal (breakdown (PurchaseUnit.amount pu))) =
         currencyCode (PurchaseUnit.amount pu)"
  by (simp add: collect_def)

text \<open>
  C8. The built request does not depend on the cart: two carts with the same contact
  preference give the same request, and the purchase unit of every request carries
  exactly one line item, the fixed T-shirt.
\<close>

theorem collect_ignores_cart:
  "collect cart1 pref = collect cart2 pref
   \<and> map items (purchaseUnits (Collect.body (collect cart1 pref))) =
       [[\<lparr> Item.name = ''T-Shirt'',
            unitAmount = \<lparr> currencyCode = ''GBP'', value = ''100.00'' \<rparr>,
            quantity = ''1'',
            description = ''Super Fresh Shirt'',
            sku = ''sku01'' \<rparr>]]"
  by (simp add: collect_def)

text \<open>
  C9. The builder raises no error of its own, whatever the contact preference: for every
  environment, cart and preference, \<^verbatim>\<open>createOrder\<close> submits the built request to the
  processor, the request carries the preference unchanged (an unrecognized string
  included), and an error that \<^verbatim>\<open>createOrder\<close> ends with is one that the processor call
  or \<^verbatim>\<open>JSON.parse\<close> has thrown.
\<close>

theorem createOrder_forwards_any_pref:
  "fst (createOrder env cart pref) = [collect cart pref]
   \<and> contactPreference
       (experienceContext (paypal (paymentSource (Collect.body (collect cart pref))))) = pref
   \<and> (\<forall>e. snd (createOrder env cart pref) = Inl e \<longrightarrow>
         ordersController_createOrder env (collect cart pref) = Inl e
         \<or> (\<exists>r. ordersController_createOrder env (collect cart pref) = Inr r
                \<and> JSON_parse env (ApiResponse.body r) = Inl e))"
proof (intro conjI allI impI)
  show "fst (createOrder env cart pref) = [collect cart pref]"
    by (rule createOrder_sent)
  show "contactPreference
       (experienceContext (paypal (paymentSource (Collect.body (collect cart pref))))) = pref"
    by (simp add: collect_def)
next
  fix e
  assume "snd (createOrder env cart pref) = Inl e"
  then show "ordersController_createOrder env (collect cart pref) = Inl e
         \<or> (\<exists>r. ordersController_createOrder env (collect cart pref) = Inr r
                \<and> JSON_parse env (ApiResponse.body r) = Inl e)"
    by (simp only: createOrder_throws_iff)
qed

text \<open>
  A processor that rejects every preference outside the three it knows: the unrecognized
  string reaches it, and its rejection is the error of \<^verbatim>\<open>createOrder\<close>.
\<close>

theorem createOrder_forwards_any_pref_witness:
  "(let env = \<lparr> ordersController_createOrder =
                  (\<lambda>c. if contactPreference
                            (experienceContext (paypal (paymentSource (Collect.body c))))
                          \<in> {JStr ''NO_CONTACT_INFO'', JStr ''RETAIN_CONTACT_INFO'',
                               JStr ''UPDATE_CONTACT_INFO''}
                       then Inr \<lparr> ApiResponse.body = ''{}'', statusCode = 201 \<rparr>
                       else Inl (ApiError ''INVALID_PARAMETER_VALUE'')),
                ordersController_captureOrder = (\<lambda>q. Inl (Error ''unused'')),
                JSON_parse = (\<lambda>s. Inr (JObj [])) \<rparr>
    in fst (createOrder env JNull (JStr ''SOMETHING_ELSE'')) = [collect JNull (JStr ''SOMETHING_ELSE'')]
       \<and> contactPreference
           (experienceContext (paypal (paymentSource
              (Collect.body (collect JNull (JStr ''SOMETHING_ELSE'')))))) = JStr ''SOMETHING_ELSE''
       \<and> snd (createOrder env JNull (JStr ''SOMETHING_ELSE'')) = Inl (ApiError ''INVALID_PARAMETER_VALUE'')
       \<and> ordersController_createOrder env (collect JNull (JStr ''SOMETHING_ELSE'')) =
           Inl (ApiError ''INVALID_PARAMETER_VALUE''))"
proof -
  let ?env = "\<lparr> ordersController_createOrder =
                  (\<lambda>c. if contactPreference
                            (experienceContext (paypal (paymentSource (Collect.body c))))
                          \<in> {JStr ''NO_CONTACT_INFO'', JStr ''RETAIN_CONTACT_INFO'',
                               JStr ''UPDATE_CONTACT_INFO''}
                       then Inr \<lparr> ApiResponse.body = ''{}'', statusCode = 201 \<rparr>
                       else Inl (ApiError ''INVALID_PARAMETER_VALUE'')),
                ordersController_captureOrder = (\<lambda>q. Inl (Error ''unused'')),
                JSON_parse = (\<lambda>s. Inr (JObj [])) \<rparr>"
  have fwd: "contactPreference
           (experienceContext (paypal (paymentSource
              (Collect.body (collect JNull (JStr ''SOMETHING_ELSE'')))))) = JStr ''SOMETHING_ELSE''"
    using createOrder_forwards_any_pref [of ?env JNull "JStr ''SOMETHING_ELSE''"] by blast
  have thrown: "snd (createOrder ?env JNull (JStr ''SOMETHING_ELSE'')) = Inl (ApiError ''INVALID_PARAMETER_VALUE'')"
    by (simp add: createOrder_def Let_def fwd)
  show ?thesis
    using createOrder_forwards_any_pref [of ?env JNull "JStr ''SOMETHING_ELSE''"] thrown
    by (simp add: Let_def)
qed

subsection \<open>The create route\<close>

text \<open>
  C5. Whenever something throws inside the create route (reading the request body, the
  processor call, or parsing the processor's answer), the route answers with status 500
  and exactly the JSON body \<^verbatim>\<open>{"error":"Failed to create order."}\<close>. The answer is the same for
  every error, so nothing of the error is in it.
\<close>

theorem create_failure_is_generic_500:
  assumes "get_property req_body ''cart'' = Inl e
    \<or> (\<exists>cart pref. get_property req_body ''cart'' = Inr cart
          \<and> get_property req_body ''pref'' = Inr pref
          \<and> (ordersController_createOrder env (collect cart pref) = Inl e
             \<or> (\<exists>r. ordersController_createOrder env (collect cart pref) = Inr r
                   \<and> JSON_parse env (ApiResponse.body r) = Inl e)))"
  shows "snd (post_api_orders env req_body) =
    \<lparr> status = 500, json = Some (JObj [(''error'', JStr ''Failed to create order.'')]) \<rparr>"
  using assms
proof
  assume "get_property req_body ''cart'' = Inl e"
  then show ?thesis by (simp add: post_api_orders_def Let_def)
next
  assume "\<exists>cart pref. get_property req_body ''cart'' = Inr cart
          \<and> get_property req_body ''pref'' = Inr pref
          \<and> (ordersController_createOrder env (collect cart pref) = Inl e
             \<or> (\<exists>r. ordersController_createOrder env (collect cart pref) = Inr r
                   \<and> JSON_parse env (ApiResponse.body r) = Inl e))"
  then obtain cart pref where c: "get_property req_body ''cart'' = Inr cart"
    and p: "get_property req_body ''pref'' = Inr pref"
    and t: "snd (createOrder env cart pref) = Inl e"
    unfolding createOrder_throws_iff by blast
  show ?thesis by (simp add: post_api_orders_unfold [OF c p] t)
qed

text \<open>Scenario D of the specification: the processor's \<^verbatim>\<open>createOrder\<close> throws.\<close>

theorem create_failure_is_generic_500_witness:
  "(let env = \<lparr> ordersController_createOrder = (\<lambda>c. Inl (ApiError ''UNPROCESSABLE_ENTITY'')),
                ordersController_captureOrder = (\<lambda>q. Inl (Error ''unused'')),
                JSON_parse = (\<lambda>s. Inl (SyntaxError ''unused'')) \<rparr>;
        req_body = JObj [(''cart'', JArr []), (''pref'', JStr ''NO_CONTACT_INFO'')]
    in ordersController_createOrder env (collect (JArr []) (JStr ''NO_CONTACT_INFO''))
         = Inl (ApiError ''UNPROCESSABLE_ENTITY'')
       \<and> get_property req_body ''cart'' = Inr (JArr [])
       \<and> get_property req_body ''pref'' = Inr (JStr ''NO_CONTACT_INFO'')
       \<and> snd (post_api_orders env req_body) =
           \<lparr> status = 500, json = Some (JObj [(''error'', JStr ''Failed to create order.'')]) \<rparr>)"
  using create_failure_is_generic_500
    [of "JObj [(''cart'', JArr []), (''pref'', JStr ''NO_CONTACT_INFO'')]"
        "ApiError ''UNPROCESSABLE_ENTITY''"
        "\<lparr> ordersController_createOrder = (\<lambda>c. Inl (ApiError ''UNPROCESSABLE_ENTITY'')),
           ordersController_captureOrder = (\<lambda>q. Inl (Error ''unused'')),
           JSON_parse = (\<lambda>s. Inl (SyntaxError ''unused'')) \<rparr>"]
  by (simp add: Let_def)

text \<open>
  What the create route answers once the processor has returned status code \<open>s\<close> and a
  body that \<^verbatim>\<open>JSON.parse\<close> turns into \<open>j\<close>: the generic failure when \<open>s\<close> is no status
  code, and otherwise the status \<open>s\<close>, with the body \<open>j\<close> as it is written when \<open>s\<close>
  carries a body.
\<close>

lemma create_route_after_processor_returns:
  assumes "get_property req_body ''cart'' = Inr cart"
    and "get_property req_body ''pref'' = Inr pref"
    and "ordersController_createOrder env (collect cart pref) =
           Inr \<lparr> ApiResponse.body = b, statusCode = s \<rparr>"
    and "JSON_parse env b = Inr j"
  shows "snd (post_api_orders env req_body) =
    (if s < 100 \<or> 999 < s then
       \<lparr> status = 500, json = Some (JObj [(''error'', JStr ''Failed to create order.'')]) \<rparr>
     else \<lparr> status = s, json = (if has_body s then written j else None) \<rparr>)"
proof -
  have "snd (createOrder env cart pref) = Inr \<lparr> jsonResponse = j, httpStatusCode = s \<rparr>"
    using assms(3,4) by (simp add: createOrder_def Let_def)
  then show ?thesis
    by (simp add: post_api_orders_unfold [OF assms(1,2)] res_status_json_def)
qed

text \<open>
  C7, as amended. When the create route reaches the processor and the processor's
  \<^verbatim>\<open>createOrder\<close> returns a status code \<open>s\<close> that carries a body (from 200 to 999, and not
  204, 205 or 304) and a body \<open>b\<close> that \<^verbatim>\<open>JSON.parse\<close> turns into a value \<open>j\<close> which is
  written back as it is (no infinity, no negative zero in it), then \<^verbatim>\<open>createOrder\<close>
  returns \<open>j\<close> and \<open>s\<close>, and the route answers with status \<open>s\<close> and JSON body \<open>j\<close>.
\<close>

theorem create_success_relays:
  assumes "get_property req_body ''cart'' = Inr cart"
    and "get_property req_body ''pref'' = Inr pref"
    and "ordersController_createOrder env (collect cart pref) =
           Inr \<lparr> ApiResponse.body = b, statusCode = s \<rparr>"
    and "JSON_parse env b = Inr j"
    and "200 \<le> s" and "s \<le> 999" and "s \<notin> {204, 205, 304}"
    and "written j = Some j"
  shows "snd (createOrder env cart pref) = Inr \<lparr> jsonResponse = j, httpStatusCode = s \<rparr>
    \<and> snd (post_api_orders env req_body) = \<lparr> status = s, json = Some j \<rparr>"
proof -
  have r: "snd (createOrder env cart pref) = Inr \<lparr> jsonResponse = j, httpStatusCode = s \<rparr>"
    using assms(3,4) by (simp add: createOrder_def Let_def)
  have "has_body s"
    using assms(5,7) by (simp add: has_body_def)
  then have "res_status_json s j = Inr \<lparr> status = s, json = Some j \<rparr>"
    using assms(5,6,8) by (simp add: res_status_json_def)
  with r show ?thesis
    by (simp add: post_api_orders_unfold [OF assms(1,2)])
qed

text \<open>Scenario C of the specification: status 201 and the body \<^verbatim>\<open>{"id":"O-1"}\<close>.\<close>

theorem create_success_relays_witness:
  "(let env = \<lparr> ordersController_createOrder =
                  (\<lambda>c. Inr \<lparr> ApiResponse.body = ''{\"id\":\"O-1\"}'', statusCode = 201 \<rparr>),
                ordersController_captureOrder = (\<lambda>q. Inl (Error ''unused'')),
                JSON_parse =
                  (\<lambda>s. if s = ''{\"id\":\"O-1\"}'' then Inr (JObj [(''id'', JStr ''O-1'')])
                       else Inl (SyntaxError ''Unexpected token'')) \<rparr>;
        req_body = JObj [(''cart'', JArr []), (''pref'', JStr ''UPDATE_CONTACT_INFO'')]
    in get_property req_body ''cart'' = Inr (JArr [])
       \<and> get_property req_body ''pref'' = Inr (JStr ''UPDATE_CONTACT_INFO'')
       \<and> ordersController_createOrder env (collect (JArr []) (JStr ''UPDATE_CONTACT_INFO'')) =
           Inr \<lparr> ApiResponse.body = ''{\"id\":\"O-1\"}'', statusCode = 201 \<rparr>
       \<and> JSON_parse env ''{\"id\":\"O-1\"}'' = Inr (JObj [(''id'', JStr ''O-1'')])
       \<and> (200::int) \<le> 201 \<and> (201::int) \<le> 999 \<and> (201::int) \<notin> {204, 205, 304}
       \<and> written (JObj [(''id'', JStr ''O-1'')]) = Some (JObj [(''id'', JStr ''O-1'')])
       \<and> snd (createOrder env (JArr []) (JStr ''UPDATE_CONTACT_INFO'')) =
           Inr \<lparr> jsonResponse = JObj [(''id'', JStr ''O-1'')], httpStatusCode = 201 \<rparr>
       \<and> snd (post_api_orders env req_body) =
           \<lparr> status = 201, json = Some (JObj [(''id'', JStr ''O-1'')]) \<rparr>)"
  using create_success_relays
    [of "JObj [(''cart'', JArr []), (''pref'', JStr ''UPDATE_CONTACT_INFO'')]"
        "JArr []" "JStr ''UPDATE_CONTACT_INFO''"
        "\<lparr> ordersController_createOrder =
             (\<lambda>c. Inr \<lparr> ApiResponse.body = ''{\"id\":\"O-1\"}'', statusCode = 201 \<rparr>),
           ordersController_captureOrder = (\<lambda>q. Inl (Error ''unused'')),
           JSON_parse =
             (\<lambda>s. if s = ''{\"id\":\"O-1\"}'' then Inr (JObj [(''id'', JStr ''O-1'')])
                  else Inl (SyntaxError ''Unexpected token'')) \<rparr>"
        "''{\"id\":\"O-1\"}''" 201 "JObj [(''id'', JStr ''O-1'')]"]
  by (simp add: Let_def)

text \<open>
  C7 as it is written fails: it promises the relay for every status code and body. When
  the processor returns status 204 and the body \<^verbatim>\<open>{"id":"O-1"}\<close>, the route answers 204
  without a body, not with the parsed body.
\<close>

theorem create_success_relays_counterexample:
  "get_property (JObj [(''cart'', JArr []), (''pref'', JStr ''UPDATE_CONTACT_INFO'')]) ''cart''
     = Inr (JArr [])
   \<and> get_property (JObj [(''cart'', JArr []), (''pref'', JStr ''UPDATE_CONTACT_INFO'')]) ''pref''
     = Inr (JStr ''UPDATE_CONTACT_INFO'')
   \<and> snd (createOrder
        \<lparr> ordersController_createOrder =
            (\<lambda>c. Inr \<lparr> ApiResponse.body = ''{\"id\":\"O-1\"}'', statusCode = 204 \<rparr>),
          ordersController_captureOrder = (\<lambda>q. Inl (Error ''unused'')),
          JSON_parse = (\<lambda>s. Inr (JObj [(''id'', JStr ''O-1'')])) \<rparr>
        (JArr []) (JStr ''UPDATE_CONTACT_INFO''))
     = Inr \<lparr> jsonResponse = JObj [(''id'', JStr ''O-1'')], httpStatusCode = 204 \<rparr>
   \<and> snd (post_api_orders
        \<lparr> ordersController_createOrder =
            (\<lambda>c. Inr \<lparr> ApiResponse.body = ''{\"id\":\"O-1\"}'', statusCode = 204 \<rparr>),
          ordersController_captureOrder = (\<lambda>q. Inl (Error ''unused'')),
          JSON_parse = (\<lambda>s. Inr (JObj [(''id'', JStr ''O-1'')])) \<rparr>
        (JObj [(''cart'', JArr []), (''pref'', JStr ''UPDATE_CONTACT_INFO'')]))
     = \<lparr> status = 204, json = None \<rparr>
   \<and> snd (post_api_orders
        \<lparr> ordersController_createOrder =
            (\<lambda>c. Inr \<lparr> ApiResponse.body = ''{\"id\":\"O-1\"}'', statusCode = 204 \<rparr>),
          ordersController_captureOrder = (\<lambda>q. Inl (Error ''unused'')),
          JSON_parse = (\<lambda>s. Inr (JObj [(''id'', JStr ''O-1'')])) \<rparr>
        (JObj [(''cart'', JArr []), (''pref'', JStr ''UPDATE_CONTACT_INFO'')]))
     \<noteq> \<lparr> status = 204, json = Some (JObj [(''id'', JStr ''O-1'')]) \<rparr>"
  by (simp add: post_api_orders_def createOrder_def res_status_json_def has_body_def Let_def)

text \<open>
  Two more inputs outside the amended claim. A status code that is no HTTP status code
  (here 99) is refused inside the \<^verbatim>\<open>try\<close>, and the route answers with the generic
  failure. A body \<^verbatim>\<open>[1e400]\<close> is parsed to an array holding infinity, which is sent as
  \<^verbatim>\<open>[null]\<close>.
\<close>

lemma create_route_status_99:
  "snd (post_api_orders
        \<lparr> ordersController_createOrder =
            (\<lambda>c. Inr \<lparr> ApiResponse.body = ''{\"id\":\"O-1\"}'', statusCode = 99 \<rparr>),
          ordersController_captureOrder = (\<lambda>q. Inl (Error ''unused'')),
          JSON_parse = (\<lambda>s. Inr (JObj [(''id'', JStr ''O-1'')])) \<rparr>
        (JObj [(''cart'', JArr []), (''pref'', JStr ''UPDATE_CONTACT_INFO'')]))
     = \<lparr> status = 500, json = Some (JObj [(''error'', JStr ''Failed to create order.'')]) \<rparr>"
  by (simp add: post_api_orders_def createOrder_def res_status_json_def Let_def)

lemma create_route_infinity:
  "snd (post_api_orders
        \<lparr> ordersController_createOrder =
            (\<lambda>c. Inr \<lparr> ApiResponse.body = ''[1e400]'', statusCode = 201 \<rparr>),
          ordersController_captureOrder = (\<lambda>q. Inl (Error ''unused'')),
          JSON_parse = (\<lambda>s. Inr (JArr [JNum PositiveInfinity])) \<rparr>
        (JObj [(''cart'', JArr []), (''pref'', JStr ''UPDATE_CONTACT_INFO'')]))
     = \<lparr> status = 201, json = Some (JArr [JNull]) \<rparr>"
  by (simp add: post_api_orders_def createOrder_def res_status_json_def has_body_def Let_def)

text \<open>
  C10. When the request body is an object without the key \<^verbatim>\<open>pref\<close>, the contact
  preference is \<^verbatim>\<open>undefined\<close>: the request submitted to the processor has a shipping
  block, and the \<^verbatim>\<open>contactPreference\<close> of its experience context is \<^verbatim>\<open>undefined\<close>.
\<close>

theorem missing_pref_includes_shipping:
  assumes "map_of kvs ''pref'' = None"
  shows "\<exists>cart c pu sh. get_property (JObj kvs) ''cart'' = Inr cart
     \<and> fst (post_api_orders env (JObj kvs)) = [c]
     \<and> c = collect cart JUndefined
     \<and> purchaseUnits (Collect.body c) = [pu]
     \<and> shipping pu = Some sh
     \<and> contactPreference (experienceContext (paypal (paymentSource (Collect.body c)))) = JUndefined"
proof -
  obtain cart where c: "get_property (JObj kvs) ''cart'' = Inr cart" by simp
  have p: "get_property (JObj kvs) ''pref'' = Inr JUndefined" using assms by simp
  have "fst (post_api_orders env (JObj kvs)) = [collect cart JUndefined]"
    by (simp add: post_api_orders_unfold [OF c p] createOrder_sent)
  moreover have "\<exists>pu sh. purchaseUnits (Collect.body (collect cart JUndefined)) = [pu]
        \<and> shipping pu = Some sh"
    by (simp add: collect_def includeShipping_def)
  moreover have "contactPreference (experienceContext (paypal (paymentSource
        (Collect.body (collect cart JUndefined))))) = JUndefined"
    by (simp add: collect_def)
  ultimately show ?thesis using c by blast
qed

text \<open>A body with a cart and no preference.\<close>

theorem missing_pref_includes_shipping_witness:
  "map_of [(''cart'', JArr [])] ''pref'' = None
   \<and> (\<exists>cart c pu sh. get_property (JObj [(''cart'', JArr [])]) ''cart'' = Inr cart
     \<and> fst (post_api_orders
          \<lparr> ordersController_createOrder = (\<lambda>c. Inl (Error ''offline'')),
            ordersController_captureOrder = (\<lambda>q. Inl (Error ''offline'')),
            JSON_parse = (\<lambda>s. Inl (SyntaxError ''unused'')) \<rparr>
          (JObj [(''cart'', JArr [])])) = [c]
     \<and> c = collect cart JUndefined
     \<and> purchaseUnits (Collect.body c) = [pu]
     \<and> shipping pu = Some sh
     \<and> contactPreference (experienceContext (paypal (paymentSource (Collect.body c)))) = JUndefined)"
proof -
  have h: "map_of [(''cart'', JArr [])] ''pref'' = None" by simp
  show ?thesis
    using h missing_pref_includes_shipping [OF h] by blast
qed

subsection \<open>The capture route\<close>

text \<open>
  C6. Whenever the processor's \<^verbatim>\<open>captureOrder\<close> throws, the capture route answers with
  status 500 and the JSON body \<^verbatim>\<open>{"error": m}\<close>, where \<open>m\<close> is the error's own message
  when the error is an \<^verbatim>\<open>ApiError\<close>, and \<^verbatim>\<open>"Failed to capture order."\<close> for every other
  error.
\<close>

theorem capture_failure_message:
  assumes "ordersController_captureOrder env
             \<lparr> CaptureRequest.id' = orderID, CaptureRequest.prefer = ''return=minimal'' \<rparr> = Inl err"
  shows "status (snd (post_api_orders_capture env orderID)) = 500
    \<and> json (snd (post_api_orders_capture env orderID)) =
        Some (JObj [(''error'',
               JStr (case err of
                       ApiError message \<Rightarrow> message
                     | TypeError m \<Rightarrow> ''Failed to capture order.''
                     | SyntaxError m \<Rightarrow> ''Failed to capture order.''
                     | Error m \<Rightarrow> ''Failed to capture order.''))])"
  using assms by (simp add: post_api_orders_capture_def Let_def split: js_error.splits)

text \<open>Scenario E of the specification: an \<^verbatim>\<open>ApiError\<close> with the message "Order already captured".\<close>

theorem capture_failure_message_witness:
  "(let env = \<lparr> ordersController_createOrder = (\<lambda>c. Inl (Error ''unused'')),
                ordersController_captureOrder = (\<lambda>q. Inl (ApiError ''Order already captured'')),
                JSON_parse = (\<lambda>s. Inl (SyntaxError ''unused'')) \<rparr>
    in ordersController_captureOrder env
         \<lparr> CaptureRequest.id' = ''O-1'', CaptureRequest.prefer = ''return=minimal'' \<rparr>
         = Inl (ApiError ''Order already captured'')
       \<and> status (snd (post_api_orders_capture env ''O-1'')) = 500
       \<and> json (snd (post_api_orders_capture env ''O-1'')) =
           Some (JObj [(''error'', JStr ''Order already captured'')]))"
  using capture_failure_message
    [of "\<lparr> ordersController_createOrder = (\<lambda>c. Inl (Error ''unused'')),
           ordersController_captureOrder = (\<lambda>q. Inl (ApiError ''Order already captured'')),
           JSON_parse = (\<lambda>s. Inl (SyntaxError ''unused'')) \<rparr>"
        "''O-1''" "ApiError ''Order already captured''"]
  by (simp add: Let_def)

text \<open>
  What the capture route answers once the processor has returned status code \<open>s\<close> and a
  body that \<^verbatim>\<open>JSON.parse\<close> turns into \<open>j\<close>: a status that is no status code is refused
  inside the \<^verbatim>\<open>try\<close>, and the \<^verbatim>\<open>catch\<close> answers with the generic message.
\<close>

lemma capture_route_after_processor_returns:
  assumes "ordersController_captureOrder env
             \<lparr> CaptureRequest.id' = orderID, CaptureRequest.prefer = ''return=minimal'' \<rparr> =
           Inr \<lparr> ApiResponse.body = b, statusCode = s \<rparr>"
    and "JSON_parse env b = Inr j"
  shows "snd (post_api_orders_capture env orderID) =
    (if s < 100 \<or> 999 < s then
       \<lparr> status = 500, json = Some (JObj [(''error'', JStr ''Failed to capture order.'')]) \<rparr>
     else \<lparr> status = s, json = (if has_body s then written j else None) \<rparr>)"
  using assms by (simp add: post_api_orders_capture_def res_status_json_def Let_def)

end
